theory Spec2Isabelle
  imports Main "HOL-Library.Word"
begin

section \<open>Shared package: Duration and TestResult\<close>

text \<open>
  \<open>shared.Duration\<close> is Go's \<open>time.Duration\<close>: a signed 64-bit count of nanoseconds.
  The values handled here are far from the 64-bit limits, so it is an \<open>int\<close>; Go's
  integer division and remainder truncate toward zero.
\<close>

type_synonym Duration = int

definition go_quot :: "int \<Rightarrow> int \<Rightarrow> int" where
  "go_quot a b = sgn a * sgn b * (\<bar>a\<bar> div \<bar>b\<bar>)"

definition go_rem :: "int \<Rightarrow> int \<Rightarrow> int" where
  "go_rem a b = a - b * go_quot a b"

definition Millisecond :: int where
  "Millisecond = 1000000"

definition Second :: int where
  "Second = 1000000000"

text \<open>\<open>strconv.FormatUint\<close>, \<open>strconv.Itoa\<close> and \<open>strconv.FormatInt\<close> in base 10.\<close>

fun FormatUint :: "nat \<Rightarrow> string" where
  "FormatUint n =
     (if n < 10 then [''0123456789'' ! n]
      else FormatUint (n div 10) @ [''0123456789'' ! (n mod 10)])"

declare FormatUint.simps [simp del]

definition Itoa :: "int \<Rightarrow> string" where
  "Itoa i = (if i < 0 then CHR ''-'' # FormatUint (nat (- i)) else FormatUint (nat i))"

text \<open>\<open>Duration.String\<close>: whole milliseconds followed by \<open>ms\<close>.\<close>

definition Duration_String :: "Duration \<Rightarrow> string" where
  "Duration_String d = Itoa (go_quot d Millisecond) @ ''ms''"

text \<open>\<open>time.Duration.Truncate\<close> for a positive unit.\<close>

definition Truncate :: "Duration \<Rightarrow> Duration \<Rightarrow> Duration" where
  "Truncate d m = (if m \<le> 0 then d else d - go_rem d m)"

text \<open>
  \<open>Duration.UnmarshalJSON\<close>, from the decoded JSON string on. \<open>time.ParseDuration\<close>
  belongs to the Go standard library and is a parameter; the method itself checks the
  suffix and nothing else: the sign of the parsed value is never looked at.
\<close>

datatype duration_error = InvalidDurationFormat | InvalidDurationValue

definition HasSuffix :: "string \<Rightarrow> string \<Rightarrow> bool" where
  "HasSuffix s suf = (length suf \<le> length s \<and> drop (length s - length suf) s = suf)"

definition Duration_UnmarshalJSON ::
  "(string \<Rightarrow> Duration option) \<Rightarrow> string \<Rightarrow> duration_error + Duration" where
  "Duration_UnmarshalJSON ParseDuration s =
     (if \<not> (HasSuffix s ''ms'' \<or> HasSuffix s ''s'' \<or> HasSuffix s ''m'')
      then Inl InvalidDurationFormat
      else (case ParseDuration s of
              None \<Rightarrow> Inl InvalidDurationValue
            | Some v \<Rightarrow> Inr v))"

text \<open>
  \<open>TestResult\<close> is \<open>[9]string\<close>, indexed by the constants \<open>trRequestTime\<close> ..
  \<open>trTimedOut\<close>; \<open>attrNames\<close> gives the form key of each column.
\<close>

definition attrNames :: "string list" where
  "attrNames =
     [''ReqTime'', ''TestName'', ''ReqID'', ''ReqNum'', ''ReqMethod'',
      ''ReqPath'', ''RespCode'', ''RoundDuration'', ''TimedOut'']"

definition trRequestTime :: nat where "trRequestTime = 0"
definition trTestName :: nat where "trTestName = 1"
definition trRequestID :: nat where "trRequestID = 2"
definition trRequestNum :: nat where "trRequestNum = 3"
definition trRequestMethod :: nat where "trRequestMethod = 4"
definition trRequestPath :: nat where "trRequestPath = 5"
definition trResponseCode :: nat where "trResponseCode = 6"
definition trRoundDuration :: nat where "trRoundDuration = 7"
definition trTimedOut :: nat where "trTimedOut = 8"

type_synonym TestResult = "string list"

text \<open>The zero value of \<open>TestResult\<close>: nine empty strings.\<close>

definition zeroTestResult :: TestResult where
  "zeroTestResult = replicate (length attrNames) []"

text \<open>
  \<open>url.Values\<close> is \<open>map[string][]string\<close>. \<open>Get\<close> returns the first value of a key,
  the empty string when there is none; \<open>Set\<close> replaces the values of a key by one.
\<close>

type_synonym Values = "string \<rightharpoonup> string list"

definition Values_Get :: "Values \<Rightarrow> string \<Rightarrow> string" where
  "Values_Get vs k = (case vs k of None \<Rightarrow> [] | Some [] \<Rightarrow> [] | Some (v # _) \<Rightarrow> v)"

definition Values_Set :: "Values \<Rightarrow> string \<Rightarrow> string \<Rightarrow> Values" where
  "Values_Set vs k v = vs(k \<mapsto> [v])"

definition NewTestResult :: "Values \<Rightarrow> TestResult" where
  "NewTestResult vs = map (Values_Get vs) attrNames"

definition URLValues :: "TestResult \<Rightarrow> Values" where
  "URLValues r = fold (\<lambda>(n, v) m. Values_Set m n v) (zip attrNames r) Map.empty"

definition SetRequestTime :: "TestResult \<Rightarrow> string \<Rightarrow> TestResult" where
  "SetRequestTime r t = r[trRequestTime := t]"

definition SetTestName :: "TestResult \<Rightarrow> string \<Rightarrow> TestResult" where
  "SetTestName r name = r[trTestName := name]"

definition SetRequestID :: "TestResult \<Rightarrow> string \<Rightarrow> TestResult" where
  "SetRequestID r ident = r[trRequestID := ident]"

definition SetRequestNum :: "TestResult \<Rightarrow> 64 word \<Rightarrow> TestResult" where
  "SetRequestNum r num = r[trRequestNum := Itoa (sint num)]"

definition SetRequesMethod :: "TestResult \<Rightarrow> string \<Rightarrow> TestResult" where
  "SetRequesMethod r m = r[trRequestMethod := m]"

definition SetRequestPath :: "TestResult \<Rightarrow> string \<Rightarrow> TestResult" where
  "SetRequestPath r p = r[trRequestPath := p]"

definition SetResponseCode :: "TestResult \<Rightarrow> int \<Rightarrow> TestResult" where
  "SetResponseCode r c = r[trResponseCode := Itoa c]"

definition SetRoundDuration :: "TestResult \<Rightarrow> Duration \<Rightarrow> TestResult" where
  "SetRoundDuration r d = r[trRoundDuration := Duration_String d]"

definition SetTimedOut :: "TestResult \<Rightarrow> bool \<Rightarrow> TestResult" where
  "SetTimedOut r v = (if v then r[trTimedOut := ''true''] else r[trTimedOut := ''false''])"

section \<open>Tester: configuration types\<close>

text \<open>
  A JSON document as \<open>encoding/json\<close> sees it. A number keeps its literal text; an
  object is the sequence of its members.
\<close>

datatype json =
    JNull
  | JBool bool
  | JNumber string
  | JString string
  | JArray "json list"
  | JObject "(string \<times> json) list"

text \<open>
  \<open>json.Unmarshal(data, &s)\<close> for a fresh \<open>var s string\<close>: a JSON string is stored,
  \<open>null\<close> leaves \<open>s\<close> empty without an error, anything else is a type error.
\<close>

definition unmarshal_string :: "json \<Rightarrow> string option" where
  "unmarshal_string j =
     (case j of JString s \<Rightarrow> Some s | JNull \<Rightarrow> Some [] | _ \<Rightarrow> None)"

text \<open>
  \<open>strconv.ParseUint(s, 10, bitSize)\<close>: a non-empty run of decimal digits, no sign, whose
  value fits \<open>bitSize\<close> bits.
\<close>

definition digit_of :: "char \<Rightarrow> nat option" where
  "digit_of c =
     (let i = length (takeWhile (\<lambda>d. d \<noteq> c) ''0123456789'')
      in if i < 10 then Some i else None)"

fun parse_digits :: "nat \<Rightarrow> string \<Rightarrow> nat option" where
  "parse_digits acc [] = Some acc"
| "parse_digits acc (c # cs) =
     (case digit_of c of
        None \<Rightarrow> None
      | Some d \<Rightarrow> parse_digits (acc * 10 + d) cs)"

definition ParseUint :: "string \<Rightarrow> nat \<Rightarrow> nat option" where
  "ParseUint s bitSize =
     (if s = [] then None
      else (case parse_digits 0 s of
              None \<Rightarrow> None
            | Some n \<Rightarrow> if n < 2 ^ bitSize then Some n else None))"

text \<open>
  \<open>pace\<close> is \<open>uint16\<close>, requests per minute. In the \<open>rph\<close> branch the source computes
  \<open>math.Round(float64(v) / 60)\<close> for \<open>v < 65536\<close>: the quotient is exact when \<open>v\<close> is
  an odd multiple of 30 and otherwise at least \<open>1/60\<close> away from a half, so rounding half
  away from zero gives \<open>(v + 30) div 60\<close>. In the \<open>rps\<close> branch \<open>v * 60\<close> is a
  \<open>uint64\<close> converted to \<open>uint16\<close>, which keeps the low 16 bits. The switch has no
  default: were no unit to match, the receiver would keep the zero value of a fresh
  \<open>params\<close>; the suffix check before it leaves no such text.
\<close>

datatype pace_error = PaceInvalidJSONString | PaceInvalidFormat | PaceInvalidValue

definition pace_UnmarshalJSON :: "json \<Rightarrow> pace_error + 16 word" where
  "pace_UnmarshalJSON data =
     (case unmarshal_string data of
        None \<Rightarrow> Inl PaceInvalidJSONString
      | Some s \<Rightarrow>
          if \<not> (HasSuffix s ''rps'' \<or> HasSuffix s ''rpm'' \<or> HasSuffix s ''rph'')
          then Inl PaceInvalidFormat
          else
            (let v = take (length s - 3) s; u = drop (length s - 3) s in
             if u = ''rph'' then
               (case ParseUint v 16 of
                  Some x \<Rightarrow> Inr (word_of_nat ((x + 30) div 60))
                | None \<Rightarrow> Inl PaceInvalidValue)
             else if u = ''rpm'' then
               (case ParseUint v 16 of
                  Some x \<Rightarrow> Inr (word_of_nat x)
                | None \<Rightarrow> Inl PaceInvalidValue)
             else if u = ''rps'' then
               (case ParseUint v 16 of
                  Some x \<Rightarrow> Inr (word_of_nat (x * 60))
                | None \<Rightarrow> Inl PaceInvalidValue)
             else Inr 0))"

definition pace_MarshalJSON :: "16 word \<Rightarrow> string" where
  "pace_MarshalJSON p = CHR 0x22 # Itoa (uint p) @ ''rpm'' @ [CHR 0x22]"

definition pace_String :: "16 word \<Rightarrow> string" where
  "pace_String p = FormatUint (unat p) @ ''rpm''"

text \<open>\<open>choice.UnmarshalJSON\<close>: only the two enumerated texts are stored.\<close>

datatype choice_error = ChoiceInvalidJSONString | ChoiceInvalidValue

definition choice_UnmarshalJSON :: "json \<Rightarrow> choice_error + string" where
  "choice_UnmarshalJSON data =
     (case unmarshal_string data of
        None \<Rightarrow> Inl ChoiceInvalidJSONString
      | Some s \<Rightarrow>
          if s = ''roundrobin'' \<or> s = ''random'' then Inr s
          else Inl ChoiceInvalidValue)"

text \<open>
  \<open>http.Header\<close> is \<open>map[string][]string\<close>; \<open>Set\<close> and \<open>Add\<close> first canonicalise the
  key with \<open>textproto.CanonicalMIMEHeaderKey\<close>, a standard-library function taken as
  the parameter \<open>canon\<close>.
\<close>

type_synonym Header = "string \<rightharpoonup> string list"

definition Header_Set :: "(string \<Rightarrow> string) \<Rightarrow> Header \<Rightarrow> string \<Rightarrow> string \<Rightarrow> Header" where
  "Header_Set canon h k v = h(canon k \<mapsto> [v])"

definition Header_Add :: "(string \<Rightarrow> string) \<Rightarrow> Header \<Rightarrow> string \<Rightarrow> string \<Rightarrow> Header" where
  "Header_Add canon h k v =
     h(canon k \<mapsto> (case h (canon k) of None \<Rightarrow> [v] | Some vs \<Rightarrow> vs @ [v]))"

text \<open>
  The header loop of \<open>request.UnmarshalJSON\<close>. The members of the \<open>header\<close> object
  arrive in the order Go's map iteration happens to produce, here the order of the list.
  Each raw member is decoded into \<open>any\<close> and dispatched by a type switch with the two
  cases \<open>string\<close> and \<open>[]any\<close> and no default.
\<close>

datatype header_error = InvalidHeaderValue string

fun add_elements ::
  "(string \<Rightarrow> string) \<Rightarrow> string \<Rightarrow> json list \<Rightarrow> Header \<Rightarrow> header_error + Header" where
  "add_elements canon k [] h = Inr h"
| "add_elements canon k (JString s # vs) h = add_elements canon k vs (Header_Add canon h k s)"
| "add_elements canon k (_ # vs) h = Inl (InvalidHeaderValue k)"

fun header_member ::
  "(string \<Rightarrow> string) \<Rightarrow> string \<Rightarrow> json \<Rightarrow> Header \<Rightarrow> header_error + Header" where
  "header_member canon k (JString v) h = Inr (Header_Set canon h k v)"
| "header_member canon k (JArray vs) h = add_elements canon k vs h"
| "header_member canon k _ h = Inr h"

fun unmarshal_header ::
  "(string \<Rightarrow> string) \<Rightarrow> (string \<times> json) list \<Rightarrow> Header \<Rightarrow> header_error + Header" where
  "unmarshal_header canon [] h = Inr h"
| "unmarshal_header canon ((k, raw) # ms) h =
     (case header_member canon k raw h of
        Inl e \<Rightarrow> Inl e
      | Inr h' \<Rightarrow> unmarshal_header canon ms h')"

record request =
  Method :: string
  Path :: string
  Header :: Header
  Body :: string

definition zero_request :: request where
  "zero_request = \<lparr>Method = [], Path = [], Header = Map.empty, Body = []\<rparr>"

record params =
  Name :: string
  Duration :: Duration
  Pace :: "16 word"
  ParallelTesters :: "8 word"
  Timeout :: Duration
  Choice :: string
  ReqSchema :: string
  ReqVersion :: "8 word \<times> 8 word"
  ReqIDHeader :: string
  Requests :: "request list"

definition zero_params :: params where
  "zero_params =
     \<lparr>Name = [], Duration = 0, Pace = 0, ParallelTesters = 0, Timeout = 0, Choice = [],
      ReqSchema = [], ReqVersion = (0, 0), ReqIDHeader = [], Requests = []\<rparr>"

section \<open>Tester: the service and its POST /test handler\<close>

definition statusReady :: "32 word" where "statusReady = 0"
definition statusTesting :: "32 word" where "statusTesting = 1"
definition statusStopping :: "32 word" where "statusStopping = 2"

definition idsBufferSize :: nat where "idsBufferSize = 100"

text \<open>
  \<open>resultsBufferSize\<close> is an untyped constant; in the product with the \<open>uint8\<close> field
  \<open>ParallelTesters\<close> it takes that type.
\<close>

definition resultsBufferSize :: "8 word" where "resultsBufferSize = 20"

definition spinupFactor :: int where "spinupFactor = 4"
definition spinupMaxDuration :: int where "spinupMaxDuration = 10 * Second"

text \<open>
  The fields of \<open>service\<close> that \<open>handleTest\<close> touches. A time is a count of nanoseconds;
  \<open>testCtx\<close> is the deadline of the current test context, if one was ever made;
  \<open>results\<close> is the capacity of the results channel. The three counters record how many
  sender, id-generator and worker subsystems have been started.
\<close>

record service =
  status :: "32 word"
  params :: params
  testCtx :: "int option"
  startedAt :: int
  runningUntil :: int
  results :: "nat option"
  ids :: "nat option"
  senders :: nat
  idGens :: nat
  testerGroups :: nat
  supervisors :: nat

definition NewService :: service where
  "NewService =
     \<lparr>status = statusReady, params = zero_params, testCtx = None, startedAt = 0,
      runningUntil = 0, results = None, ids = None, senders = 0, idGens = 0,
      testerGroups = 0, supervisors = 0\<rparr>"

text \<open>
  The response writer: the status code is fixed by the first call that writes the header;
  \<open>http.Error\<close> writes the header and a message, a later \<open>WriteHeader\<close> is ignored.
\<close>

record response =
  code :: "nat option"
  allow :: "string option"

definition new_response :: response where
  "new_response = \<lparr>code = None, allow = None\<rparr>"

definition WriteHeader :: "response \<Rightarrow> nat \<Rightarrow> response" where
  "WriteHeader w c = (case code w of None \<Rightarrow> w\<lparr>code := Some c\<rparr> | Some _ \<Rightarrow> w)"

definition http_Error :: "response \<Rightarrow> nat \<Rightarrow> response" where
  "http_Error w c = WriteHeader w c"

definition StatusOK :: nat where "StatusOK = 200"
definition StatusBadRequest :: nat where "StatusBadRequest = 400"
definition StatusMethodNotAllowed :: nat where "StatusMethodNotAllowed = 405"
definition StatusServiceUnavailable :: nat where "StatusServiceUnavailable = 503"

definition CompareAndSwap :: "service \<Rightarrow> 32 word \<Rightarrow> 32 word \<Rightarrow> bool \<times> service" where
  "CompareAndSwap s old new =
     (if status s = old then (True, s\<lparr>status := new\<rparr>) else (False, s))"

definition startSender :: "service \<Rightarrow> service" where
  "startSender s =
     s\<lparr>results := Some (unat (ParallelTesters (params s) * resultsBufferSize)),
       senders := senders s + 1\<rparr>"

definition startIDGen :: "service \<Rightarrow> service" where
  "startIDGen s = s\<lparr>ids := Some idsBufferSize, idGens := idGens s + 1\<rparr>"

definition startTesters :: "service \<Rightarrow> service" where
  "startTesters s = s\<lparr>testerGroups := testerGroups s + 1\<rparr>"

text \<open>
  What reading and decoding the request body gives: a read failure, a decoding error
  (with whatever the failed decoding left in \<open>s.params\<close>), or the decoded parameters.
\<close>

datatype body = ReadFailed | Malformed params | Decoded params

definition apply_defaults :: "params \<Rightarrow> params" where
  "apply_defaults p =
     (let p1 = (if ReqSchema p = [] then p\<lparr>ReqSchema := ''http''\<rparr> else p);
          p2 = (if ReqVersion p1 = (0, 0) then p1\<lparr>ReqVersion := (1, 1)\<rparr> else p1)
      in if ReqIDHeader p2 = [] then p2\<lparr>ReqIDHeader := ''X-Request-ID''\<rparr> else p2)"

definition handleTest :: "service \<Rightarrow> string \<Rightarrow> body \<Rightarrow> int \<Rightarrow> service \<times> response" where
  "handleTest s method b now =
     (if method = ''POST'' then
        (case b of
           ReadFailed \<Rightarrow> (s, http_Error new_response StatusBadRequest)
         | Malformed p \<Rightarrow> (s\<lparr>params := p\<rparr>, http_Error new_response StatusBadRequest)
         | Decoded p \<Rightarrow>
             if Duration p < 0
             then (s\<lparr>params := p\<rparr>, http_Error new_response StatusBadRequest)
             else
               (let s1 = s\<lparr>params := apply_defaults p\<rparr>;
                    (swapped, s2) = CompareAndSwap s1 statusReady statusTesting;
                    w1 = (if \<not> swapped
                          then http_Error new_response StatusServiceUnavailable
                          else new_response);
                    s3 = s2\<lparr>startedAt := now\<rparr>;
                    s4 = s3\<lparr>runningUntil := startedAt s3 + Duration (params s3)\<rparr>;
                    s5 = s4\<lparr>testCtx := Some (runningUntil s4)\<rparr>;
                    s6 = startTesters (startIDGen (startSender s5));
                    s7 = s6\<lparr>supervisors := supervisors s6 + 1\<rparr>
                in (s7, WriteHeader w1 StatusOK)))
      else (s, http_Error (new_response\<lparr>allow := Some ''POST''\<rparr>) StatusMethodNotAllowed))"

section \<open>Tester: the workers\<close>

datatype panic = DivideByZero | InvalidArgument | IndexOutOfRange

text \<open>
  The opening of \<open>runTesters\<close>: the spin-up window, divided among the workers. The
  division by \<open>int64(ParallelTesters)\<close> panics on zero.
\<close>

definition spinup_window :: "params \<Rightarrow> panic + int" where
  "spinup_window p =
     (let spinup = go_quot (Duration p) spinupFactor;
          spinup' = (if spinup > spinupMaxDuration then spinupMaxDuration else spinup)
      in if ParallelTesters p = 0 then Inl DivideByZero
         else Inr (go_quot spinup' (uint (ParallelTesters p))))"

text \<open>
  \<open>rand.Int64N(n)\<close> panics when \<open>n \<le> 0\<close> and otherwise returns a value in \<open>[0, n)\<close>;
  \<open>u\<close> is what the random source delivers.
\<close>

definition Int64N :: "nat \<Rightarrow> int \<Rightarrow> panic + int" where
  "Int64N u n = (if n \<le> 0 then Inl InvalidArgument else Inr (int u mod n))"

text \<open>The delay slept before worker number \<open>i\<close> is started.\<close>

definition spinup_delay :: "params \<Rightarrow> nat \<Rightarrow> panic + int" where
  "spinup_delay p u =
     (case spinup_window p of
        Inl e \<Rightarrow> Inl e
      | Inr spinup \<Rightarrow> Int64N u spinup)"

text \<open>
  The loop over the workers of \<open>runTesters\<close>, one random draw for each: the delays slept,
  or the panic that ends the process.
\<close>

fun spinup_loop :: "int \<Rightarrow> nat list \<Rightarrow> panic + int list" where
  "spinup_loop spinup [] = Inr []"
| "spinup_loop spinup (u # us) =
     (case Int64N u spinup of
        Inl e \<Rightarrow> Inl e
      | Inr d \<Rightarrow> (case spinup_loop spinup us of Inl e \<Rightarrow> Inl e | Inr ds \<Rightarrow> Inr (d # ds)))"

definition runTesters_spinup :: "params \<Rightarrow> (nat \<Rightarrow> nat) \<Rightarrow> panic + int list" where
  "runTesters_spinup p draws =
     (case spinup_window p of
        Inl e \<Rightarrow> Inl e
      | Inr spinup \<Rightarrow> spinup_loop spinup (map draws [0..<unat (ParallelTesters p)]))"

text \<open>
  One pass of a worker's loop needs from outside: the value of the shared request
  counter, the draw of the worker's random source, whether \<open>http.NewRequestWithContext\<close>
  failed, the correlation id, the formatted start time, what \<open>client.Do\<close> returned (a
  status code when there is a response, an error or none) and the time the request took.
\<close>

datatype do_error = DeadlineExceeded | TransportError

record pass =
  globalN :: "64 word"
  draw :: nat
  newRequestFailed :: bool
  reqID :: string
  startText :: string
  respStatus :: "int option"
  doErr :: "do_error option"
  sinceStart :: Duration

text \<open>
  The choice of the template. \<open>r\<close> is the worker's variable declared before the loop; it
  keeps its value when no branch assigns it. \<open>localN % n\<close> and \<open>IntN(n)\<close> panic for
  \<open>n = 0\<close>.
\<close>

definition pick_request :: "params \<Rightarrow> nat \<Rightarrow> nat \<Rightarrow> request \<Rightarrow> panic + request" where
  "pick_request p localN u r =
     (let n = length (Requests p) in
      if n = 1 then Inr (Requests p ! 0)
      else if Choice p = ''roundrobin'' then
        (if n = 0 then Inl DivideByZero else Inr (Requests p ! (localN mod n)))
      else if Choice p = ''random'' then
        (if n = 0 then Inl InvalidArgument else Inr (Requests p ! (u mod n)))
      else Inr r)"

text \<open>The record a pass builds from the chosen template and the outcome of the request.\<close>

definition make_record :: "params \<Rightarrow> request \<Rightarrow> pass \<Rightarrow> TestResult" where
  "make_record p r e =
     (let t0 = SetRequestTime zeroTestResult (startText e);
          t1 = (case doErr e of
                  Some err \<Rightarrow> (if err = DeadlineExceeded then SetTimedOut t0 True else t0)
                | None \<Rightarrow> SetTimedOut t0 False);
          elapsed = Truncate (sinceStart e) Millisecond;
          t2 = SetTestName t1 (Name p);
          t3 = SetRequestID t2 (reqID e);
          t4 = SetRequestNum t3 (globalN e);
          t5 = SetRequesMethod t4 (Method r);
          t6 = SetRequestPath t5 (Path r);
          t7 = SetRoundDuration t6 elapsed
      in (case respStatus e of
            Some c \<Rightarrow> SetResponseCode t7 c
          | None \<Rightarrow> t7))"

text \<open>
  One pass: the worker's state is \<open>(localN, r)\<close>; the result is the new state and, unless
  the pass ended in \<open>continue\<close>, the template the request was built from and the record
  pushed to the results channel.
\<close>

definition worker_pass ::
  "params \<Rightarrow> nat \<times> request \<Rightarrow> pass \<Rightarrow> panic + ((nat \<times> request) \<times> (request \<times> TestResult) option)" where
  "worker_pass p st e =
     (let localN = fst st + 1 in
      case pick_request p localN (draw e) (snd st) of
        Inl x \<Rightarrow> Inl x
      | Inr r \<Rightarrow>
          if newRequestFailed e then Inr ((localN, r), None)
          else Inr ((localN, r), Some (r, make_record p r e)))"

text \<open>
  The worker's loop for the passes it makes before the test context is done, from the
  state \<open>st\<close> on: what each pass that reached the request issued and emitted, in order.
\<close>

fun worker_loop ::
  "params \<Rightarrow> nat \<times> request \<Rightarrow> pass list \<Rightarrow> panic + (request \<times> TestResult) list" where
  "worker_loop p st [] = Inr []"
| "worker_loop p st (e # es) =
     (case worker_pass p st e of
        Inl x \<Rightarrow> Inl x
      | Inr (st', out) \<Rightarrow>
          (case worker_loop p st' es of
             Inl x \<Rightarrow> Inl x
           | Inr outs \<Rightarrow> Inr (case out of None \<Rightarrow> outs | Some x \<Rightarrow> x # outs)))"

definition run_worker :: "params \<Rightarrow> pass list \<Rightarrow> panic + (request \<times> TestResult) list" where
  "run_worker p es = worker_loop p (0, zero_request) es"

text \<open>The \<open>ReqPath\<close> column of the records a worker emitted, in order.\<close>

definition emitted_paths :: "panic + (request \<times> TestResult) list \<Rightarrow> string list" where
  "emitted_paths res =
     (case res of Inl _ \<Rightarrow> [] | Inr outs \<Rightarrow> map (\<lambda>(r, t). t ! trRequestPath) outs)"

section \<open>Sample configurations\<close>

text \<open>
  The parameters of the smoke scenario: one worker, one template, two seconds; two
  further templates for the round-robin scenario; and a few passes of a worker, one of
  which fails to build its request.
\<close>

definition sample_request :: request where
  "sample_request = \<lparr>Method = ''GET'', Path = ''/x'', Header = Map.empty, Body = []\<rparr>"

definition request_a :: request where
  "request_a = \<lparr>Method = ''GET'', Path = ''/a'', Header = Map.empty, Body = []\<rparr>"

definition request_b :: request where
  "request_b = \<lparr>Method = ''POST'', Path = ''/b'', Header = Map.empty, Body = ''x''\<rparr>"

definition sample_params :: params where
  "sample_params =
     \<lparr>Name = ''t1'', Duration = 2 * Second, Pace = 60, ParallelTesters = 1,
      Timeout = 500 * Millisecond, Choice = ''roundrobin'', ReqSchema = ''http'',
      ReqVersion = (1, 1), ReqIDHeader = ''X-Request-ID'', Requests = [sample_request]\<rparr>"

definition two_requests :: params where
  "two_requests = sample_params\<lparr>Requests := [request_a, request_b]\<rparr>"

definition sample_pass :: pass where
  "sample_pass =
     \<lparr>globalN = 1, draw = 0, newRequestFailed = False, reqID = ''id-1'',
      startText = ''2026-01-01 00:00:00'', respStatus = Some 200, doErr = None,
      sinceStart = 12345678\<rparr>"

definition sample_passes :: "pass list" where
  "sample_passes =
     [sample_pass, sample_pass\<lparr>globalN := 2\<rparr>, sample_pass\<lparr>globalN := 3\<rparr>,
      sample_pass\<lparr>globalN := 4, newRequestFailed := True\<rparr>,
      sample_pass\<lparr>globalN := 5\<rparr>, sample_pass\<lparr>globalN := 6\<rparr>]"

definition served_passes :: "pass list" where
  "served_passes = filter (\<lambda>e. \<not> newRequestFailed e) sample_passes"

text \<open>
  Two POST /test calls with the same valid body, the second arriving while the test
  admitted by the first is still active.
\<close>

definition first_post :: "service \<times> response" where
  "first_post = handleTest NewService ''POST'' (Decoded sample_params) 100"

definition second_post :: "service \<times> response" where
  "second_post = handleTest (fst first_post) ''POST'' (Decoded sample_params) 200"

section \<open>Unfolding sets\<close>

lemmas tr_defs =
  trRequestTime_def trTestName_def trRequestID_def trRequestNum_def trRequestMethod_def
  trRequestPath_def trResponseCode_def trRoundDuration_def trTimedOut_def

lemmas setter_defs =
  SetRequestTime_def SetTestName_def SetRequestID_def SetRequestNum_def SetRequesMethod_def
  SetRequestPath_def SetResponseCode_def SetRoundDuration_def SetTimedOut_def

lemmas handler_defs =
  handleTest_def NewService_def apply_defaults_def CompareAndSwap_def statusReady_def
  statusTesting_def new_response_def WriteHeader_def http_Error_def StatusOK_def
  StatusBadRequest_def StatusServiceUnavailable_def StatusMethodNotAllowed_def
  startSender_def startIDGen_def startTesters_def resultsBufferSize_def idsBufferSize_def
  Let_def

section \<open>The TestResult wire round trip\<close>

lemma fold_Values_Set:
  "fold (\<lambda>(n, v) m. Values_Set m n v) (zip ns (map f ns)) m0 =
     (\<lambda>k. if k \<in> set ns then Some [f k] else m0 k)"
proof (induction ns arbitrary: m0)
  case Nil
  show ?case by simp
next
  case (Cons n ns)
  have "fold (\<lambda>(n, v) m. Values_Set m n v) (zip (n # ns) (map f (n # ns))) m0 =
          (\<lambda>k. if k \<in> set ns then Some [f k] else (Values_Set m0 n (f n)) k)"
    by (simp add: Cons.IH)
  also have "\<dots> = (\<lambda>k. if k \<in> set (n # ns) then Some [f k] else m0 k)"
    by (auto simp: Values_Set_def fun_eq_iff)
  finally show ?case .
qed

text \<open>
  C9. When a form-value map gives each of the nine attribute keys exactly one value,
  building a \<open>TestResult\<close> from it and turning that back into form values gives the map
  restricted to the nine keys.
\<close>

theorem URLValues_NewTestResult:
  assumes "list_all (\<lambda>k. \<exists>v. vs k = Some [v]) attrNames"
  shows "URLValues (NewTestResult vs) = vs |` set attrNames"
proof (rule ext)
  fix k
  show "URLValues (NewTestResult vs) k = (vs |` set attrNames) k"
  proof (cases "k \<in> set attrNames")
    case True
    with assms obtain v where "vs k = Some [v]"
      by (auto simp: list_all_iff)
    with True show ?thesis
      by (simp add: URLValues_def NewTestResult_def fold_Values_Set Values_Get_def)
  next
    case False
    then show ?thesis
      by (simp add: URLValues_def NewTestResult_def fold_Values_Set)
  qed
qed

theorem URLValues_NewTestResult_witness:
  "URLValues (NewTestResult (map_of (map (\<lambda>k. (k, [k @ ''!''])) (''Extra'' # attrNames)))) =
     map_of (map (\<lambda>k. (k, [k @ ''!''])) (''Extra'' # attrNames)) |` set attrNames"
  by (rule URLValues_NewTestResult) (simp add: attrNames_def)

section \<open>The POST /test handler\<close>

lemma handleTest_code:
  "code (snd (handleTest s ''POST'' b now)) =
     (case b of
        ReadFailed \<Rightarrow> Some 400
      | Malformed p \<Rightarrow> Some 400
      | Decoded p \<Rightarrow>
          if Duration p < 0 then Some 400
          else if status s = statusReady then Some 200 else Some 503)"
  by (simp add: handler_defs split: body.split)

lemma apply_defaults_Duration: "Duration (apply_defaults p) = Duration p"
  by (simp add: apply_defaults_def Let_def)

lemma handleTest_params:
  "params (fst (handleTest s ''POST'' (Decoded p) now)) =
     (if Duration p < 0 then p else apply_defaults p)"
  by (simp add: handler_defs)

text \<open>
  When the body is rejected with 400 the handler has returned before the swap: apart from
  \<open>params\<close>, which the decoder has already overwritten, the service is as it was.
\<close>

lemma handleTest_rejected_state:
  "Duration p < 0 \<Longrightarrow>
   handleTest s ''POST'' (Decoded p) now = (s\<lparr>params := p\<rparr>, \<lparr>code = Some 400, allow = None\<rparr>)"
  by (simp add: handler_defs)

text \<open>
  C1. A POST /test that finds the status not \<open>ready\<close> is to answer 503 and leave the
  service as it is, starting nothing. The handler writes the 503 and then falls through:
  the second of two POSTs with the same valid body is answered 503, yet it overwrites
  \<open>startedAt\<close>, \<open>runningUntil\<close> and \<open>testCtx\<close> of the running test and starts a second
  sender, id generator and group of workers.
\<close>

theorem busy_post_restarts_test:
  "code (snd first_post) = Some 200 \<and>
   status (fst first_post) = statusTesting \<and>
   startedAt (fst first_post) = 100 \<and>
   runningUntil (fst first_post) = 2000000100 \<and>
   testCtx (fst first_post) = Some 2000000100 \<and>
   (senders (fst first_post), idGens (fst first_post), testerGroups (fst first_post)) = (1, 1, 1) \<and>
   code (snd second_post) = Some 503 \<and>
   status (fst second_post) = statusTesting \<and>
   startedAt (fst second_post) = 200 \<and>
   runningUntil (fst second_post) = 2000000200 \<and>
   testCtx (fst second_post) = Some 2000000200 \<and>
   (senders (fst second_post), idGens (fst second_post), testerGroups (fst second_post)) = (2, 2, 2)"
  by (simp add: first_post_def second_post_def handler_defs sample_params_def Second_def
      Millisecond_def)

text \<open>
  C4. A POST /test answered 200 is to carry no negative duration in either
  \<open>duration\<close> or \<open>timeout\<close>, and a negative duration is to be answered 400. The handler
  guards \<open>duration\<close> alone: a body with \<open>timeout = -5s\<close> is admitted with 200 and the
  negative timeout is stored.
\<close>

theorem negative_timeout_admitted:
  "code (snd (handleTest NewService ''POST''
            (Decoded (sample_params\<lparr>Timeout := - 5 * Second\<rparr>)) 0)) = Some 200 \<and>
   Timeout (params (fst (handleTest NewService ''POST''
            (Decoded (sample_params\<lparr>Timeout := - 5 * Second\<rparr>)) 0))) < 0"
  by (simp add: handler_defs sample_params_def Second_def Millisecond_def)

text \<open>
  C4, as the handler has it: whatever the body and the state of the service, a POST /test
  answered 200 leaves parameters with \<open>duration \<ge> 0\<close>, and decoded parameters with a
  negative \<open>duration\<close> are answered 400.
\<close>

theorem admitted_duration_nonneg:
  "(code (snd (handleTest s ''POST'' b now)) = Some 200 \<longrightarrow>
      0 \<le> Duration (params (fst (handleTest s ''POST'' b now)))) \<and>
   (Duration p < 0 \<longrightarrow> code (snd (handleTest s ''POST'' (Decoded p) now)) = Some 400)"
proof (intro conjI impI)
  assume ok: "code (snd (handleTest s ''POST'' b now)) = Some 200"
  then obtain q where b: "b = Decoded q" and q: "\<not> Duration q < 0"
    by (cases b) (auto simp: handleTest_code split: if_splits)
  then show "0 \<le> Duration (params (fst (handleTest s ''POST'' b now)))"
    by (simp add: handleTest_params apply_defaults_Duration)
next
  assume "Duration p < 0"
  then show "code (snd (handleTest s ''POST'' (Decoded p) now)) = Some 400"
    by (simp add: handleTest_code)
qed

theorem admitted_duration_nonneg_witness:
  "0 \<le> Duration (params (fst (handleTest NewService ''POST'' (Decoded sample_params) 0))) \<and>
   code (snd (handleTest NewService ''POST''
           (Decoded (sample_params\<lparr>Duration := - Second\<rparr>)) 0)) = Some 400"
  using admitted_duration_nonneg
    [of NewService "Decoded sample_params" 0 "sample_params\<lparr>Duration := - Second\<rparr>"]
  by (simp add: handleTest_code NewService_def sample_params_def Second_def)

text \<open>
  The decoder of a \<open>Duration\<close> field passes on whatever \<open>time.ParseDuration\<close> returns,
  negative values included.
\<close>

lemma Duration_UnmarshalJSON_value:
  "HasSuffix s ''ms'' \<or> HasSuffix s ''s'' \<or> HasSuffix s ''m'' \<Longrightarrow> ParseDuration s = Some v \<Longrightarrow>
   Duration_UnmarshalJSON ParseDuration s = Inr v"
  by (simp add: Duration_UnmarshalJSON_def)

section \<open>The capacity of the results channel\<close>

lemma results_capacity:
  "results (startSender s) = Some (unat (ParallelTesters (params s)) * 20 mod 256)"
  by (simp add: startSender_def resultsBufferSize_def unat_word_ariths)

text \<open>
  C2. The results channel of an admitted configuration with \<open>parallelTesters = N\<close> is to
  have capacity \<open>N \<times> 20\<close> for every \<open>N\<close> of the \<open>uint8\<close> range. The product is computed
  in \<open>uint8\<close>: the configuration with \<open>parallelTesters = 13\<close> is admitted with status
  200 and its channel has capacity 4, not 260.
\<close>

theorem results_capacity_wraps:
  "code (snd (handleTest NewService ''POST''
            (Decoded (sample_params\<lparr>ParallelTesters := 13\<rparr>)) 0)) = Some 200 \<and>
   results (fst (handleTest NewService ''POST''
            (Decoded (sample_params\<lparr>ParallelTesters := 13\<rparr>)) 0)) = Some 4"
  by (simp add: handler_defs sample_params_def Second_def Millisecond_def)

section \<open>The spin-up delay\<close>

lemma spinup_window_value:
  assumes "0 \<le> Duration p" and "ParallelTesters p \<noteq> 0"
  shows "spinup_window p =
           Inr (min (Duration p div 4) (10 * Second) div uint (ParallelTesters p))"
proof -
  have "0 < uint (ParallelTesters p)"
    using assms(2) by (simp add: order_less_le uint_0_iff)
  with assms show ?thesis
    by (auto simp: spinup_window_def spinupFactor_def spinupMaxDuration_def go_quot_def
        Second_def Let_def min_def sgn_if)
qed

lemma spinup_delay_range:
  assumes "spinup_window p = Inr w" and "0 < w"
  shows "\<exists>d. spinup_delay p u = Inr d \<and> 0 \<le> d \<and> d < w"
  using assms by (simp add: spinup_delay_def Int64N_def)

text \<open>
  C8. For every admitted configuration the spin-up computation is to be total and to give
  a delay within \<open>[0, spinup/N]\<close>. Two admitted configurations make \<open>runTesters\<close> panic
  instead: with \<open>parallelTesters = 0\<close> the division by the number of workers is a division
  by zero, and with \<open>duration = 0\<close> the window is empty and \<open>rand.Int64N(0)\<close> panics.
\<close>

theorem spinup_panics:
  "code (snd (handleTest NewService ''POST''
            (Decoded (sample_params\<lparr>ParallelTesters := 0\<rparr>)) 0)) = Some 200 \<and>
   runTesters_spinup (params (fst (handleTest NewService ''POST''
            (Decoded (sample_params\<lparr>ParallelTesters := 0\<rparr>)) 0))) draws = Inl DivideByZero \<and>
   code (snd (handleTest NewService ''POST''
            (Decoded (sample_params\<lparr>Duration := 0\<rparr>)) 0)) = Some 200 \<and>
   runTesters_spinup (params (fst (handleTest NewService ''POST''
            (Decoded (sample_params\<lparr>Duration := 0\<rparr>)) 0))) draws = Inl InvalidArgument"
  by (simp add: handler_defs sample_params_def Second_def Millisecond_def
      runTesters_spinup_def spinup_window_def spinupFactor_def spinupMaxDuration_def
      go_quot_def Int64N_def)

section \<open>The records a worker emits\<close>

lemma make_record_length: "length (make_record p r e) = 9"
  by (simp add: make_record_def setter_defs tr_defs zeroTestResult_def attrNames_def Let_def
      split: option.split)

lemma make_record_TimedOut:
  "make_record p r e ! trTimedOut =
     (case doErr e of
        None \<Rightarrow> ''false''
      | Some DeadlineExceeded \<Rightarrow> ''true''
      | Some TransportError \<Rightarrow> [])"
  by (simp add: make_record_def setter_defs tr_defs zeroTestResult_def attrNames_def Let_def
      split: option.split do_error.split)

lemma make_record_ResponseCode:
  "make_record p r e ! trResponseCode = (case respStatus e of None \<Rightarrow> [] | Some c \<Rightarrow> Itoa c)"
  by (simp add: make_record_def setter_defs tr_defs zeroTestResult_def attrNames_def Let_def
      split: option.split do_error.split)

lemma make_record_RequestPath: "make_record p r e ! trRequestPath = Path r"
  by (simp add: make_record_def setter_defs tr_defs zeroTestResult_def attrNames_def Let_def
      split: option.split do_error.split)

lemma make_record_RequestMethod: "make_record p r e ! trRequestMethod = Method r"
  by (simp add: make_record_def setter_defs tr_defs zeroTestResult_def attrNames_def Let_def
      split: option.split do_error.split)

text \<open>
  C3. Every emitted record is to have \<open>TimedOut\<close> equal to \<open>true\<close> or \<open>false\<close>:
  \<open>true\<close> on a deadline error, \<open>false\<close> with an empty \<open>RespCode\<close> on any other
  transport error, \<open>false\<close> with the decimal status code when there is a response. On a
  transport error other than the deadline the worker only logs and never calls
  \<open>SetTimedOut\<close>: the record goes out with the \<open>TimedOut\<close> column empty.
\<close>

theorem transport_error_record:
  "run_worker sample_params
     [sample_pass\<lparr>respStatus := None, doErr := Some TransportError\<rparr>] =
   Inr [(sample_request,
         [''2026-01-01 00:00:00'', ''t1'', ''id-1'', ''1'', ''GET'', ''/x'', [], ''12ms'', []])]"
  by (simp add: run_worker_def worker_pass_def pick_request_def sample_params_def
      sample_pass_def make_record_def setter_defs tr_defs zeroTestResult_def attrNames_def
      Truncate_def go_rem_def go_quot_def Millisecond_def Duration_String_def Itoa_def
      FormatUint.simps Let_def sample_request_def)

lemma deadline_and_response_records:
  "run_worker sample_params
     [sample_pass\<lparr>respStatus := None, doErr := Some DeadlineExceeded\<rparr>, sample_pass] =
   Inr [(sample_request,
         [''2026-01-01 00:00:00'', ''t1'', ''id-1'', ''1'', ''GET'', ''/x'', [], ''12ms'',
          ''true'']),
        (sample_request,
         [''2026-01-01 00:00:00'', ''t1'', ''id-1'', ''1'', ''GET'', ''/x'', ''200'', ''12ms'',
          ''false''])]"
  by (simp add: run_worker_def worker_pass_def pick_request_def sample_params_def
      sample_pass_def make_record_def setter_defs tr_defs zeroTestResult_def attrNames_def
      Truncate_def go_rem_def go_quot_def Millisecond_def Duration_String_def Itoa_def
      FormatUint.simps Let_def sample_request_def)

section \<open>The choice of the request template\<close>

lemma nth_two: "[a, b] ! (Suc i mod Suc (Suc 0)) = (if even i then b else a)"
proof -
  have "Suc i mod Suc (Suc 0) = (if even i then 1 else 0)"
    by presburger
  then show ?thesis
    by simp
qed

lemma worker_pass_indexed:
  assumes "\<not> newRequestFailed e"
    and "length (Requests p) = 1 \<or> (Choice p = ''roundrobin'' \<and> 2 \<le> length (Requests p))"
  shows "worker_pass p (k, r) e =
           Inr ((Suc k, Requests p ! (Suc k mod length (Requests p))),
                Some (Requests p ! (Suc k mod length (Requests p)),
                      make_record p (Requests p ! (Suc k mod length (Requests p))) e))"
  using assms by (auto simp: worker_pass_def pick_request_def Let_def)

lemma worker_loop_indexed:
  assumes "list_all (\<lambda>e. \<not> newRequestFailed e) es"
    and "length (Requests p) = 1 \<or> (Choice p = ''roundrobin'' \<and> 2 \<le> length (Requests p))"
  shows "worker_loop p (k, r) es =
           Inr (map (\<lambda>(i, e). (Requests p ! (i mod length (Requests p)),
                              make_record p (Requests p ! (i mod length (Requests p))) e))
                  (zip [Suc k..<Suc k + length es] es))"
  using assms(1)
proof (induction es arbitrary: k r)
  case Nil
  show ?case by simp
next
  case (Cons e es)
  from Cons.prems have e: "\<not> newRequestFailed e" and es: "list_all (\<lambda>e. \<not> newRequestFailed e) es"
    by simp_all
  have upt: "[Suc k..<Suc k + length (e # es)] = Suc k # [Suc (Suc k)..<Suc (Suc k) + length es]"
    by (subst upt_rec) simp
  show ?case
    unfolding upt
    by (simp add: worker_pass_indexed [OF e assms(2)] Cons.IH [OF es] del: upt_Suc)
qed

lemma emitted_paths_indexed:
  "emitted_paths
     (Inr (map (\<lambda>(i, e). (Requests p ! (i mod n), make_record p (Requests p ! (i mod n)) e))
            (zip [Suc k..<Suc k + length es] es))) =
   map (\<lambda>i. Path (Requests p ! (i mod n))) [Suc k..<Suc k + length es]"
proof -
  have "map (\<lambda>(i, e). Path (Requests p ! (i mod n))) (zip [Suc k..<Suc k + length es] es) =
        map (\<lambda>i. Path (Requests p ! (i mod n))) (map fst (zip [Suc k..<Suc k + length es] es))"
    by (simp add: case_prod_beta comp_def)
  also have "map fst (zip [Suc k..<Suc k + length es] es) = [Suc k..<Suc k + length es]"
    by (rule map_fst_zip) (simp del: upt_Suc)
  finally show ?thesis
    by (simp add: emitted_paths_def case_prod_beta comp_def make_record_RequestPath
        del: upt_Suc)
qed

text \<open>
  C7. Let every pass of a worker issue its request. With a single template, or with
  \<open>choice = roundrobin\<close> and two or more templates, the pass with local count \<open>i\<close>
  (counted from 1) uses the template of index \<open>i mod len(requests)\<close>, which for a single
  template is that template. With the two templates \<open>/a\<close> and \<open>/b\<close> the \<open>ReqPath\<close>
  column therefore reads \<open>/b, /a, /b, /a, ...\<close>: consecutive records differ, and from the
  second record on the sequence is \<open>/a, /b, /a, /b, ...\<close>.
\<close>

theorem worker_request_selection:
  assumes "list_all (\<lambda>e. \<not> newRequestFailed e) es"
    and "length (Requests p) = 1 \<or> (Choice p = ''roundrobin'' \<and> 2 \<le> length (Requests p))"
  shows "run_worker p es =
           Inr (map (\<lambda>(i, e). (Requests p ! (i mod length (Requests p)),
                              make_record p (Requests p ! (i mod length (Requests p))) e))
                  (zip [1..<Suc (length es)] es)) \<and>
         (Requests p = [a, b] \<and> Path a = ''/a'' \<and> Path b = ''/b'' \<longrightarrow>
            emitted_paths (run_worker p es) =
              map (\<lambda>i. if even i then ''/b'' else ''/a'') [0..<length es])"
proof -
  have run: "run_worker p es =
           Inr (map (\<lambda>(i, e). (Requests p ! (i mod length (Requests p)),
                              make_record p (Requests p ! (i mod length (Requests p))) e))
                  (zip [Suc 0..<Suc 0 + length es] es))"
    unfolding run_worker_def by (rule worker_loop_indexed [OF assms])
  have alt: "emitted_paths (run_worker p es) =
              map (\<lambda>i. if even i then ''/b'' else ''/a'') [0..<length es]"
    if two: "Requests p = [a, b]" and a: "Path a = ''/a''" and b: "Path b = ''/b''"
  proof -
    have "emitted_paths (run_worker p es) =
            map (\<lambda>i. Path (Requests p ! (i mod length (Requests p)))) [Suc 0..<Suc 0 + length es]"
      unfolding run by (rule emitted_paths_indexed)
    also have "[Suc 0..<Suc 0 + length es] = map Suc [0..<length es]"
      by (simp add: map_Suc_upt del: upt_Suc)
    finally show ?thesis
      by (simp add: two a b comp_def nth_two if_distrib [of Path] cong: if_cong)
  qed
  from run alt show ?thesis by (simp del: upt_Suc)
qed

theorem worker_request_selection_witness:
  "emitted_paths (run_worker two_requests served_passes) =
     [''/b'', ''/a'', ''/b'', ''/a'', ''/b''] \<and>
   emitted_paths (run_worker sample_params served_passes) =
     [''/x'', ''/x'', ''/x'', ''/x'', ''/x'']"
  using worker_request_selection [of served_passes two_requests request_a request_b]
    worker_request_selection [of served_passes sample_params request_a request_b]
  by (simp add: two_requests_def sample_params_def served_passes_def sample_passes_def
      sample_pass_def request_a_def request_b_def sample_request_def emitted_paths_def
      make_record_RequestPath mod_Suc)

lemma worker_pass_no_choice:
  assumes "Choice p = []" and "2 \<le> length (Requests p)"
  shows "worker_pass p (k, r) e =
           Inr ((Suc k, r), if newRequestFailed e then None else Some (r, make_record p r e))"
  using assms by (simp add: worker_pass_def pick_request_def Let_def)

lemma worker_loop_no_choice:
  assumes "Choice p = []" and "2 \<le> length (Requests p)"
  shows "worker_loop p (k, r) es =
           Inr (map (\<lambda>e. (r, make_record p r e)) (filter (\<lambda>e. \<not> newRequestFailed e) es))"
  by (induction es arbitrary: k) (simp_all add: worker_pass_no_choice [OF assms])

text \<open>
  C10. With an empty \<open>choice\<close> and two or more templates no branch of the selection
  assigns the worker's template variable: every pass that issues a request builds it from
  the zero-valued template (empty method, empty path, no header, empty body), and every
  record is made from it. An empty \<open>choice\<close> can only come from a body that omits the
  field: the decoder rejects the empty text.
\<close>

theorem no_choice_zero_request:
  assumes "Choice p = []" and "2 \<le> length (Requests p)"
  shows "run_worker p es =
           Inr (map (\<lambda>e. (zero_request, make_record p zero_request e))
                  (filter (\<lambda>e. \<not> newRequestFailed e) es)) \<and>
         choice_UnmarshalJSON (JString []) = Inl ChoiceInvalidValue"
  unfolding run_worker_def
  by (simp add: worker_loop_no_choice [OF assms] choice_UnmarshalJSON_def unmarshal_string_def)

theorem no_choice_zero_request_witness:
  "run_worker (two_requests\<lparr>Choice := []\<rparr>) sample_passes =
     Inr (map (\<lambda>e. (zero_request, make_record (two_requests\<lparr>Choice := []\<rparr>) zero_request e))
            served_passes) \<and>
   emitted_paths (run_worker (two_requests\<lparr>Choice := []\<rparr>) sample_passes) = [[], [], [], [], []]"
  using no_choice_zero_request [of "two_requests\<lparr>Choice := []\<rparr>" sample_passes]
  by (simp add: two_requests_def served_passes_def sample_passes_def sample_pass_def
      emitted_paths_def make_record_RequestPath zero_request_def)

section \<open>Parsing a pace\<close>

lemma pace_examples:
  "pace_UnmarshalJSON (JString ''60rpm'') = Inr 60"
  "pace_UnmarshalJSON (JString ''1rps'') = Inr 60"
  "pace_UnmarshalJSON (JString ''3600rph'') = Inr 60"
  "pace_UnmarshalJSON (JString ''120rph'') = Inr 2"
  by (simp_all add: pace_UnmarshalJSON_def unmarshal_string_def HasSuffix_def ParseUint_def
      digit_of_def)

lemma pace_units:
  assumes "ParseUint v 16 = Some x"
  shows "pace_UnmarshalJSON (JString (v @ ''rpm'')) = Inr (word_of_nat x)"
    and "pace_UnmarshalJSON (JString (v @ ''rph'')) = Inr (word_of_nat ((x + 30) div 60))"
    and "pace_UnmarshalJSON (JString (v @ ''rps'')) = Inr (word_of_nat (x * 60))"
  using assms
  by (simp_all add: pace_UnmarshalJSON_def unmarshal_string_def HasSuffix_def)

lemma pace_rps_exact:
  assumes "ParseUint v 16 = Some x" and "x * 60 < 65536"
  shows "\<exists>w. pace_UnmarshalJSON (JString (v @ ''rps'')) = Inr w \<and> unat w = x * 60"
proof -
  have "unat (word_of_nat (x * 60) :: 16 word) = x * 60"
    using assms(2) by (simp only: unat_of_nat) simp
  with pace_units(3) [OF assms(1)] show ?thesis
    by blast
qed

lemma pace_String_suffix: "HasSuffix (pace_String p) ''rpm''"
  by (simp add: pace_String_def HasSuffix_def)

text \<open>
  C5. \<open>Xrps\<close> is to parse to \<open>X \<times> 60\<close>, \<open>Xrph\<close> to \<open>X / 60\<close> rounded and \<open>Xrpm\<close> to
  \<open>X\<close>, for every numeric text \<open>X\<close>. The product of the \<open>rps\<close> branch is cut to 16 bits
  without a range check: \<open>1093rps\<close> is accepted and parses to 44 requests per minute,
  not 65580.
\<close>

theorem pace_rps_wraps:
  "pace_UnmarshalJSON (JString ''1093rps'') = Inr 44"
  by (simp add: pace_UnmarshalJSON_def unmarshal_string_def HasSuffix_def ParseUint_def
      digit_of_def)

section \<open>Parsing the header of a request template\<close>

lemma add_elements_strings:
  "add_elements canon k (map JString vs) h = Inr (fold (\<lambda>v h. Header_Add canon h k v) vs h)"
  by (induction vs arbitrary: h) simp_all

lemma fold_Header_Add:
  "fold (\<lambda>v h. Header_Add canon h k v) vs h =
     (if vs = [] then h
      else h(canon k \<mapsto> (case h (canon k) of None \<Rightarrow> vs | Some ws \<Rightarrow> ws @ vs)))"
  by (induction vs arbitrary: h) (auto simp: Header_Add_def split: option.split)

lemma header_string_member:
  "unmarshal_header canon [(k, JString v)] Map.empty = Inr [canon k \<mapsto> [v]]"
  by (simp add: Header_Set_def)

lemma header_array_member:
  "vs \<noteq> [] \<Longrightarrow>
   unmarshal_header canon [(k, JArray (map JString vs))] Map.empty = Inr [canon k \<mapsto> vs]"
  by (simp add: add_elements_strings fold_Header_Add)

lemma header_array_example:
  "unmarshal_header canon [(''X-Test'', JArray [JString ''a'', JString ''b'', JString ''c''])]
     Map.empty = Inr [canon ''X-Test'' \<mapsto> [''a'', ''b'', ''c'']]"
  by (simp add: Header_Add_def)

lemma header_array_non_string:
  "unmarshal_header canon [(k, JArray [JString ''a'', JNumber ''1''])] h =
     Inl (InvalidHeaderValue k)"
  by simp

text \<open>
  C6. A header value that is neither a string nor an array of strings is to make the
  parsing of the template fail with an error naming the header. The type switch has no
  default case: a number, a boolean, an object or \<open>null\<close> as header value is skipped
  without an error, and the template is accepted without that header.
\<close>

theorem header_scalar_skipped:
  "unmarshal_header canon [(''X-Num'', JNumber ''5'')] Map.empty = Inr Map.empty \<and>
   unmarshal_header canon [(''X-Flag'', JBool True)] Map.empty = Inr Map.empty \<and>
   unmarshal_header canon [(''X-Obj'', JObject [])] Map.empty = Inr Map.empty \<and>
   unmarshal_header canon [(''X-Null'', JNull)] Map.empty = Inr Map.empty"
  by simp

end
